theory Spec2Isabelle
  imports Main "HOL-Library.Word"
begin

section \<open>Errors, panics and values shared by both packages\<close>

text \<open>
  Go functions return an \<open>error\<close> beside their result, or panic. A returned error is a
  value of the datatype \<open>error\<close>; a panic is the second constructor of \<open>outcome\<close>.
  \<open>LazyError\<close> is what \<open>lazyerrors.Error(err)\<close> returns: the error wrapped with its call
  site (the call site itself is left out), \<open>Unwrap\<close> giving the wrapped error back.
\<close>

datatype DocumentPathErrorCode =
    ErrDocumentPathEmptyKey
  | ErrDocumentPathOther nat

datatype error =
    ErrIteratorDone
  | Canceled
  | DeadlineExceeded
  | ErrTableNotExist
  | DocumentPathError DocumentPathErrorCode
  | ErrorString string
  | BackendError nat
  | LazyError error

datatype 'a outcome = Return 'a | Panic string

definition lazyerrors_Error :: "error \<Rightarrow> error" where
  "lazyerrors_Error err = LazyError err"

text \<open>\<open>errors.Is(err, target)\<close> for a sentinel target: walks the \<open>Unwrap\<close> chain.\<close>

fun errors_Is :: "error \<Rightarrow> error \<Rightarrow> bool" where
  "errors_Is (LazyError e) target = errors_Is e target"
| "errors_Is e target = (e = target)"

text \<open>\<open>errors.As(err, &pe)\<close> for \<open>pe *types.DocumentPathError\<close>; the result is \<open>pe.Code()\<close>.\<close>

fun errors_As_DocumentPathError :: "error \<Rightarrow> DocumentPathErrorCode option" where
  "errors_As_DocumentPathError (LazyError e) = errors_As_DocumentPathError e"
| "errors_As_DocumentPathError (DocumentPathError c) = Some c"
| "errors_As_DocumentPathError _ = None"

text \<open>
  The value kinds a \<open>types.Document\<close> can hold, as the type switches of
  \<open>prepareWhereClause\<close> list them. A \<open>float64\<close> is kept as its 64 bits; \<open>Unexpected\<close>
  stands for a Go value of any other dynamic type (the \<open>default\<close> branches).
  A document is its entries in insertion order.
\<close>

datatype val =
    Document "(string \<times> val) list"
  | Array "val list"
  | Binary "8 word list"
  | NullType
  | Regex string string
  | Timestamp "64 word"
  | Float64 "64 word"
  | String string
  | ObjectID "8 word list"
  | Bool bool
  | Time int
  | Int32 "32 word"
  | Int64 "64 word"
  | Unexpected

type_synonym document = "(string \<times> val) list"

text \<open>\<open>context.Context\<close>, as far as \<open>ctx.Err()\<close> shows it.\<close>

datatype Context = Background | Cancelled | Expired

fun Context_Err :: "Context \<Rightarrow> error option" where
  "Context_Err Background = None"
| "Context_Err Cancelled = Some Canceled"
| "Context_Err Expired = Some DeadlineExceeded"


section \<open>Package pgdb: the filter compiler (query.go)\<close>

subsection \<open>Collaborators that are not part of query.go\<close>

type_synonym Path = "string list"

text \<open>
  \<open>types.NewPathFromString\<close>, \<open>pjson.MarshalSingleValue\<close> and \<open>pjson.GetTypeOfValue\<close> are
  called by \<open>prepareWhereClause\<close> and defined elsewhere: they are parameters of the model.
\<close>

record externals =
  NewPathFromString :: "string \<Rightarrow> Path \<times> error option"
  MarshalSingleValue :: "val \<Rightarrow> string \<times> error option"
  GetTypeOfValue :: "val \<Rightarrow> string"

text \<open>\<open>strings.HasPrefix\<close>.\<close>

definition HasPrefix :: "string \<Rightarrow> string \<Rightarrow> bool" where
  "HasPrefix s pre = (take (length pre) s = pre)"

text \<open>\<open>strings.Join\<close>.\<close>

fun Join :: "string list \<Rightarrow> string \<Rightarrow> string" where
  "Join [] sep = []"
| "Join [x] sep = x"
| "Join (x # y # ys) sep = x @ sep @ Join (y # ys) sep"

text \<open>\<open>strconv.Itoa\<close> on a non-negative number.\<close>

definition digit :: "nat \<Rightarrow> char" where
  "digit d = ''0123456789'' ! d"

function Itoa :: "nat \<Rightarrow> string" where
  "Itoa n = (if n < 10 then [digit n] else Itoa (n div 10) @ [digit (n mod 10)])"
  by pat_completeness auto
termination
  by (relation "measure id") auto

declare Itoa.simps [simp del]

text \<open>
  Modelled from the spec: the placeholder allocator (type \<open>Placeholder\<close>, not in query.go),
  "a stateful counter starting at the backend's first parameter index; next() returns the
  current backend-native placeholder token and advances the counter". The state is the
  number of tokens handed out so far (Go's zero value for \<open>var p Placeholder\<close>); the tokens
  are \<open>$1\<close>, \<open>$2\<close>, ...
\<close>

type_synonym Placeholder = nat

definition Placeholder_Next :: "Placeholder \<Rightarrow> string \<times> Placeholder" where
  "Placeholder_Next p = (''$'' @ Itoa (p + 1), p + 1)"

text \<open>
  Modelled from the spec: \<open>types.NewPathFromString\<close> (not in query.go), "a dot-separated
  sequence of one or more non-empty key segments; parsing a path from a string fails with a
  structured error distinguishing empty key from other malformed forms". Used where a
  concrete parser is needed to run the compiler; the theorems hold for every parser.
\<close>

fun splitDots :: "string \<Rightarrow> string \<Rightarrow> string list" where
  "splitDots cur [] = [cur]"
| "splitDots cur (c # cs) =
     (if c = CHR ''.'' then cur # splitDots [] cs else splitDots (cur @ [c]) cs)"

definition specNewPathFromString :: "string \<Rightarrow> Path \<times> error option" where
  "specNewPathFromString s =
     (let path = splitDots [] s in
      if [] \<in> set path then ([], Some (DocumentPathError ErrDocumentPathEmptyKey))
      else (path, None))"

subsection \<open>prepareWhereClause\<close>

text \<open>
  The loop state of \<open>prepareWhereClause\<close>: \<open>filters\<close>, \<open>args\<close> and the placeholder \<open>p\<close>.
  Every argument appended is a string (the root key, or the marshalled value converted
  with \<open>string(...)\<close>).
\<close>

type_synonym whereState = "string list \<times> string list \<times> Placeholder"

text \<open>What one pass through a loop body does: go on to the next entry with a new state,
  return an error from the function, or panic.\<close>

datatype flow = Continue whereState | ReturnErr error | Panicked string

text \<open>
  The two statements of the scalar branches (top-level scalar and \<open>$eq\<close>):
  \<open>filters = append(filters, fmt.Sprintf(`_jsonb->%[1]s @> %[2]s`, p.Next(), p.Next()))\<close> and
  \<open>args = append(args, rootKey, string(must.NotFail(pjson.MarshalSingleValue(v))))\<close>.
  \<open>must.NotFail\<close> panics when the marshaller returns an error.
\<close>

definition pushEq :: "externals \<Rightarrow> string \<Rightarrow> val \<Rightarrow> whereState \<Rightarrow> flow" where
  "pushEq X rootKey v st =
     (case st of (filters, args, p) \<Rightarrow>
        (case Placeholder_Next p of (k1, p1) \<Rightarrow>
        (case Placeholder_Next p1 of (k2, p2) \<Rightarrow>
           let filters' = filters @ [''_jsonb->'' @ k1 @ '' @> '' @ k2] in
           (case MarshalSingleValue X v of
              (b, None) \<Rightarrow> Continue (filters', args @ [rootKey, b], p2)
            | (b, Some err) \<Rightarrow> Panicked ''must.NotFail''))))"

text \<open>The two statements of the scalar branch of \<open>$ne\<close>; the format string is
  \<open>NOT ( _jsonb ? %[1]s AND _jsonb->%[1]s @> %[2]s AND _jsonb->'$s'->'p'->%[1]s->'t' = '"%[3]s"' )\<close>.\<close>

definition pushNe :: "externals \<Rightarrow> string \<Rightarrow> val \<Rightarrow> whereState \<Rightarrow> flow" where
  "pushNe X rootKey v st =
     (case st of (filters, args, p) \<Rightarrow>
        (case Placeholder_Next p of (k1, p1) \<Rightarrow>
        (case Placeholder_Next p1 of (k2, p2) \<Rightarrow>
           let sql = ''NOT ( '' @
                     ''_jsonb ? '' @ k1 @ '' AND '' @
                     ''_jsonb->'' @ k1 @ '' @> '' @ k2 @ '' AND '' @
                     ''_jsonb->'' @ [CHR 0x27] @ ''$s'' @ [CHR 0x27] @ ''->'' @ [CHR 0x27] @ ''p''
                        @ [CHR 0x27] @ ''->'' @ k1 @ ''->'' @ [CHR 0x27] @ ''t'' @ [CHR 0x27]
                        @ '' = '' @ [CHR 0x27, CHR 0x22] @ GetTypeOfValue X v
                        @ [CHR 0x22, CHR 0x27] @ '' )'';
               filters' = filters @ [sql] in
           (case MarshalSingleValue X v of
              (b, None) \<Rightarrow> Continue (filters', args @ [rootKey, b], p2)
            | (b, Some err) \<Rightarrow> Panicked ''must.NotFail''))))"

text \<open>The type switch under \<open>case "$eq"\<close>.\<close>

fun opEq :: "externals \<Rightarrow> string \<Rightarrow> val \<Rightarrow> whereState \<Rightarrow> flow" where
  "opEq X rootKey (Document d) st = Continue st"
| "opEq X rootKey (Array a) st = Continue st"
| "opEq X rootKey (Binary b) st = Continue st"
| "opEq X rootKey NullType st = Continue st"
| "opEq X rootKey (Regex r opts) st = Continue st"
| "opEq X rootKey (Timestamp t) st = Continue st"
| "opEq X rootKey (Float64 f) st = pushEq X rootKey (Float64 f) st"
| "opEq X rootKey (String s) st = pushEq X rootKey (String s) st"
| "opEq X rootKey (ObjectID i) st = pushEq X rootKey (ObjectID i) st"
| "opEq X rootKey (Bool b) st = pushEq X rootKey (Bool b) st"
| "opEq X rootKey (Time t) st = pushEq X rootKey (Time t) st"
| "opEq X rootKey (Int32 i) st = pushEq X rootKey (Int32 i) st"
| "opEq X rootKey (Int64 i) st = pushEq X rootKey (Int64 i) st"
| "opEq X rootKey Unexpected st = Panicked ''Unexpected type of value''"

text \<open>The type switch under \<open>case "$ne"\<close>.\<close>

fun opNe :: "externals \<Rightarrow> string \<Rightarrow> val \<Rightarrow> whereState \<Rightarrow> flow" where
  "opNe X rootKey (Document d) st = Continue st"
| "opNe X rootKey (Array a) st = Continue st"
| "opNe X rootKey (Binary b) st = Continue st"
| "opNe X rootKey NullType st = Continue st"
| "opNe X rootKey (Regex r opts) st = Continue st"
| "opNe X rootKey (Timestamp t) st = Continue st"
| "opNe X rootKey (Float64 f) st = pushNe X rootKey (Float64 f) st"
| "opNe X rootKey (String s) st = pushNe X rootKey (String s) st"
| "opNe X rootKey (ObjectID i) st = pushNe X rootKey (ObjectID i) st"
| "opNe X rootKey (Bool b) st = pushNe X rootKey (Bool b) st"
| "opNe X rootKey (Time t) st = pushNe X rootKey (Time t) st"
| "opNe X rootKey (Int32 i) st = pushNe X rootKey (Int32 i) st"
| "opNe X rootKey (Int64 i) st = pushNe X rootKey (Int64 i) st"
| "opNe X rootKey Unexpected st = Panicked ''Unexpected type of value''"

text \<open>
  The inner loop over the operators of a sub-document: \<open>switch k\<close> with the cases
  \<open>"$eq"\<close>, \<open>"$ne"\<close> and \<open>default: continue\<close>. The document iterator yields the entries in
  order and then \<open>iterator.ErrIteratorDone\<close> (the \<open>break\<close>); it yields no other error.
\<close>

fun subdocumentLoop :: "externals \<Rightarrow> string \<Rightarrow> document \<Rightarrow> whereState \<Rightarrow> flow" where
  "subdocumentLoop X rootKey [] st = Continue st"
| "subdocumentLoop X rootKey ((k, v) # rest) st =
     (case (if k = ''$eq'' then opEq X rootKey v st
            else if k = ''$ne'' then opNe X rootKey v st
            else Continue st) of
        Continue st' \<Rightarrow> subdocumentLoop X rootKey rest st'
      | ReturnErr e \<Rightarrow> ReturnErr e
      | Panicked m \<Rightarrow> Panicked m)"

text \<open>The type switch on the root value, \<open>switch v := rootVal.(type)\<close>.\<close>

fun rootValue :: "externals \<Rightarrow> string \<Rightarrow> val \<Rightarrow> whereState \<Rightarrow> flow" where
  "rootValue X rootKey (Document d) st = subdocumentLoop X rootKey d st"
| "rootValue X rootKey (Array a) st = Continue st"
| "rootValue X rootKey (Binary b) st = Continue st"
| "rootValue X rootKey NullType st = Continue st"
| "rootValue X rootKey (Regex r opts) st = Continue st"
| "rootValue X rootKey (Timestamp t) st = Continue st"
| "rootValue X rootKey (Float64 f) st = pushEq X rootKey (Float64 f) st"
| "rootValue X rootKey (String s) st = pushEq X rootKey (String s) st"
| "rootValue X rootKey (ObjectID i) st = pushEq X rootKey (ObjectID i) st"
| "rootValue X rootKey (Bool b) st = pushEq X rootKey (Bool b) st"
| "rootValue X rootKey (Time t) st = pushEq X rootKey (Time t) st"
| "rootValue X rootKey (Int32 i) st = pushEq X rootKey (Int32 i) st"
| "rootValue X rootKey (Int64 i) st = pushEq X rootKey (Int64 i) st"
| "rootValue X rootKey Unexpected st = Panicked ''Unexpected type of value''"

text \<open>
  One pass through the body of the root loop, for the entry \<open>(rootKey, rootVal)\<close>:
  the directive check, the path check and the type switch.
\<close>

definition rootEntry :: "externals \<Rightarrow> string \<times> val \<Rightarrow> whereState \<Rightarrow> flow" where
  "rootEntry X entry st =
     (case entry of (rootKey, rootVal) \<Rightarrow>
        if HasPrefix rootKey ''$'' then Continue st
        else
          (case NewPathFromString X rootKey of
             (path, None) \<Rightarrow>
               if length path > 1 then Continue st
               else rootValue X rootKey rootVal st
           | (path, Some err) \<Rightarrow>
               (case errors_As_DocumentPathError err of
                  Some code \<Rightarrow>
                    if code \<noteq> ErrDocumentPathEmptyKey then ReturnErr (lazyerrors_Error err)
                    else rootValue X rootKey rootVal st
                | None \<Rightarrow> Panicked ''Invalid error type: DocumentPathError expected '')))"

text \<open>The root loop, \<open>for { rootKey, rootVal, err := iter.Next() ... }\<close>.\<close>

fun rootLoop :: "externals \<Rightarrow> document \<Rightarrow> whereState \<Rightarrow> flow" where
  "rootLoop X [] st = Continue st"
| "rootLoop X (entry # rest) st =
     (case rootEntry X entry st of
        Continue st' \<Rightarrow> rootLoop X rest st'
      | ReturnErr e \<Rightarrow> ReturnErr e
      | Panicked m \<Rightarrow> Panicked m)"

text \<open>
  \<open>prepareWhereClause(sqlFilters)\<close> returns \<open>(filter, args, err)\<close>. A nil filter document
  iterates as the empty document.
\<close>

definition prepareWhereClause ::
  "externals \<Rightarrow> document option \<Rightarrow> (string \<times> string list \<times> error option) outcome" where
  "prepareWhereClause X sqlFilters =
     (case rootLoop X (case sqlFilters of None \<Rightarrow> [] | Some d \<Rightarrow> d) ([], [], 0) of
        Continue (filters, args, p) \<Rightarrow>
          Return ((if length filters > 0 then '' WHERE '' @ Join filters '' AND '' else []),
                  args, None)
      | ReturnErr e \<Rightarrow> Return ([], [], Some e)
      | Panicked m \<Rightarrow> Panic m)"

subsection \<open>Collaborators of Explain and QueryDocuments\<close>

text \<open>
  \<open>strings.ReplaceAll(s, old, new)\<close> for a non-empty \<open>old\<close>: the non-overlapping
  occurrences, left to right. (The program calls it with \<open>/*\<close> and \<open>*/\<close> only; for an
  empty \<open>old\<close> the model returns \<open>s\<close>.)
\<close>

function ReplaceAll :: "string \<Rightarrow> string \<Rightarrow> string \<Rightarrow> string" where
  "ReplaceAll s old new =
     (if s = [] \<or> old = [] then s
      else if take (length old) s = old then new @ ReplaceAll (drop (length old) s) old new
      else hd s # ReplaceAll (tl s) old new)"
  by pat_completeness auto
termination
  by (relation "measure (\<lambda>(s, old, new). length s)") auto

declare ReplaceAll.simps [simp del]

type_synonym bytes = string

text \<open>
  \<open>pgx.Rows\<close>: the rows not yet read, each with what \<open>Scan(&b)\<close> gives for it, and
  what \<open>Err()\<close> reports.
\<close>

record Rows =
  remaining :: "(bytes \<times> error option) list"
  rowsErr :: "error option"

text \<open>
  What \<open>Explain\<close> and \<open>QueryDocuments\<close> reach through the transaction and through other
  packages: \<open>CollectionExists\<close>, \<open>newMetadata(tx, db, collection).getTableName\<close>,
  \<open>tx.Query\<close>, \<open>pgx.Identifier.Sanitize\<close>, \<open>json.Unmarshal\<close> into \<open>[]map[string]any\<close>,
  \<open>types.ConvertJSON\<close>, and \<open>pjson.Unmarshal\<close> for the rows of the iterator. A decoded JSON
  object is a value of the type parameter \<open>'j\<close>.
\<close>

record 'j backend =
  CollectionExists :: "Context \<Rightarrow> string \<Rightarrow> string \<Rightarrow> bool \<times> error option"
  getTableName :: "Context \<Rightarrow> string \<Rightarrow> string \<Rightarrow> string \<times> error option"
  Query :: "Context \<Rightarrow> string \<Rightarrow> string list \<Rightarrow> Rows \<times> error option"
  Sanitize :: "string list \<Rightarrow> string"
  json_Unmarshal :: "bytes \<Rightarrow> 'j list \<times> error option"
  ConvertJSON :: "'j \<Rightarrow> val"
  pjson_Unmarshal :: "bytes \<Rightarrow> document \<times> error option"

record QueryParams =
  Filter :: "document option"
  DB :: string
  Collection :: string
  Comment :: string
  ExplainFlag :: bool

record iteratorParams =
  p_schema :: string
  p_table :: string
  p_comment :: string
  p_explain :: bool
  p_filter :: "document option"
  p_forUpdate :: bool

subsection \<open>Explain\<close>

text \<open>
  \<open>Explain(ctx, tx, qp)\<close> returns \<open>(*types.Document, error)\<close>. The deferred \<open>rows.Close()\<close>
  changes nothing that \<open>Explain\<close> returns and is left out.
\<close>

definition Explain ::
  "externals \<Rightarrow> 'j backend \<Rightarrow> Context \<Rightarrow> QueryParams \<Rightarrow> (document option \<times> error option) outcome" where
  "Explain X B ctx qp =
     (case CollectionExists B ctx (DB qp) (Collection qp) of
        (ex, Some err) \<Rightarrow> Return (None, Some (lazyerrors_Error err))
      | (ex, None) \<Rightarrow>
        if \<not> ex then Return (None, Some (lazyerrors_Error ErrTableNotExist))
        else
        (case getTableName B ctx (DB qp) (Collection qp) of
           (table, Some err) \<Rightarrow> Return (None, Some (lazyerrors_Error err))
         | (table, None) \<Rightarrow>
           let query = (if ExplainFlag qp then ''EXPLAIN (VERBOSE true, FORMAT JSON) '' else []);
               query = query @ ''SELECT _jsonb '';
               query = (if Comment qp \<noteq> []
                        then query @ ''/* '' @
                             ReplaceAll (ReplaceAll (Comment qp) ''/*'' ''/ *'') ''*/'' ''* /'' @
                             '' */ ''
                        else query);
               query = query @ '' FROM '' @ Sanitize B [DB qp, table]
           in
           (case prepareWhereClause X (Filter qp) of
              Panic m \<Rightarrow> Panic m
            | Return (wh, args, Some err) \<Rightarrow> Return (None, Some (lazyerrors_Error err))
            | Return (wh, args, None) \<Rightarrow>
              (case Query B ctx (query @ wh) args of
                 (rs, Some err) \<Rightarrow> Return (None, Some (lazyerrors_Error err))
               | (rs, None) \<Rightarrow>
                 (case remaining rs of
                    [] \<Rightarrow> Return (None, Some (lazyerrors_Error
                                    (ErrorString ''no rows returned from EXPLAIN'')))
                  | (b, Some err) # others \<Rightarrow> Return (None, Some (lazyerrors_Error err))
                  | (b, None) # others \<Rightarrow>
                    (case json_Unmarshal B b of
                       (plans, Some err) \<Rightarrow> Return (None, Some (lazyerrors_Error err))
                     | (plans, None) \<Rightarrow>
                       if length plans = 0
                       then Return (None, Some (lazyerrors_Error
                                      (ErrorString ''no execution plan returned'')))
                       else
                       (case ConvertJSON B (plans ! 0) of
                          Document res \<Rightarrow>
                            (case rowsErr rs of
                               Some err \<Rightarrow> Return (None, Some (lazyerrors_Error err))
                             | None \<Rightarrow> Return (Some res, None))
                        | _ \<Rightarrow> Panic ''interface conversion'')))))))"

subsection \<open>The iterator of package pgdb\<close>

text \<open>
  Modelled from the spec: \<open>newIterator\<close> and the \<open>Next\<close> of the iterator it returns (the
  pgdb \<open>queryIterator\<close>, not in query.go), after the Result Iterator of the spec: state
  Open(cursor) or Closed; "if already Closed, returns iteration done"; "if the associated
  context is already cancelled, returns that cancellation condition"; a backend error when
  advancing or decoding "is fatal and wrapped with context"; "successful decode increments
  an internal zero-based counter and returns (counter-before-increment, Document)";
  "reaching natural end-of-cursor closes the iterator internally and returns iteration
  done". The iterator is Closed when its \<open>rows\<close> are nil.
\<close>

record pgIterator =
  pg_ctx :: Context
  pg_rows :: "Rows option"
  pg_n :: nat

definition newIterator :: "Context \<Rightarrow> Rows option \<Rightarrow> pgIterator" where
  "newIterator ctx rs = \<lparr>pg_ctx = ctx, pg_rows = rs, pg_n = 0\<rparr>"

definition pgNext ::
  "'j backend \<Rightarrow> pgIterator \<Rightarrow> (nat \<times> document option \<times> error option) \<times> pgIterator" where
  "pgNext B it =
     (case pg_rows it of
        None \<Rightarrow> ((0, None, Some ErrIteratorDone), it)
      | Some rs \<Rightarrow>
        (case Context_Err (pg_ctx it) of
           Some err \<Rightarrow> ((0, None, Some err), it)
         | None \<Rightarrow>
           (case remaining rs of
              [] \<Rightarrow>
                (case rowsErr rs of
                   Some err \<Rightarrow> ((0, None, Some (lazyerrors_Error err)), it)
                 | None \<Rightarrow> ((0, None, Some ErrIteratorDone), it\<lparr>pg_rows := None\<rparr>))
            | (b, Some err) # others \<Rightarrow>
                ((0, None, Some (lazyerrors_Error err)), it\<lparr>pg_rows := Some (rs\<lparr>remaining := others\<rparr>)\<rparr>)
            | (b, None) # others \<Rightarrow>
                (case pjson_Unmarshal B b of
                   (doc, Some err) \<Rightarrow>
                     ((0, None, Some (lazyerrors_Error err)),
                      it\<lparr>pg_rows := Some (rs\<lparr>remaining := others\<rparr>)\<rparr>)
                 | (doc, None) \<Rightarrow>
                     ((pg_n it, Some doc, None),
                      it\<lparr>pg_rows := Some (rs\<lparr>remaining := others\<rparr>), pg_n := pg_n it + 1\<rparr>)))))"

subsection \<open>buildIterator and QueryDocuments\<close>

definition buildIterator ::
  "externals \<Rightarrow> 'j backend \<Rightarrow> Context \<Rightarrow> iteratorParams \<Rightarrow> (pgIterator option \<times> error option) outcome" where
  "buildIterator X B ctx p =
     (let query = (if p_explain p then ''EXPLAIN (VERBOSE true, FORMAT JSON) '' else []);
          query = query @ ''SELECT _jsonb '';
          query = (if p_comment p \<noteq> []
                   then query @ ''/* '' @
                        ReplaceAll (ReplaceAll (p_comment p) ''/*'' ''/ *'') ''*/'' ''* /'' @
                        '' */ ''
                   else query);
          query = query @ '' FROM '' @ Sanitize B [p_schema p, p_table p]
      in
      (case prepareWhereClause X (p_filter p) of
         Panic m \<Rightarrow> Panic m
       | Return (wh, args, Some err) \<Rightarrow> Return (None, Some (lazyerrors_Error err))
       | Return (wh, args, None) \<Rightarrow>
         let query = query @ wh;
             query = (if p_forUpdate p then query @ '' FOR UPDATE'' else query)
         in
         (case Query B ctx query args of
            (rs, Some err) \<Rightarrow> Return (None, Some (lazyerrors_Error err))
          | (rs, None) \<Rightarrow> Return (Some (newIterator ctx (Some rs)), None))))"

text \<open>
  \<open>QueryDocuments(ctx, tx, qp)\<close> returns \<open>(iterator, error)\<close>; the \<open>switch\<close> on the error
  of \<open>getTableName\<close> has the cases \<open>err == nil\<close>, \<open>errors.Is(err, ErrTableNotExist)\<close> and
  \<open>default\<close>.
\<close>

definition QueryDocuments ::
  "externals \<Rightarrow> 'j backend \<Rightarrow> Context \<Rightarrow> QueryParams \<Rightarrow> (pgIterator option \<times> error option) outcome" where
  "QueryDocuments X B ctx qp =
     (case getTableName B ctx (DB qp) (Collection qp) of
        (table, Some err) \<Rightarrow>
          if errors_Is err ErrTableNotExist then Return (Some (newIterator ctx None), None)
          else Return (None, Some (lazyerrors_Error err))
      | (table, None) \<Rightarrow>
        (case buildIterator X B ctx
                \<lparr>p_schema = DB qp, p_table = table, p_comment = Comment qp,
                 p_explain = ExplainFlag qp, p_filter = Filter qp, p_forUpdate = False\<rparr> of
           Panic m \<Rightarrow> Panic m
         | Return (it, Some err) \<Rightarrow> Return (None, Some (lazyerrors_Error err))
         | Return (it, None) \<Rightarrow> Return (it, None)))"


section \<open>Package tigrisdb: the query iterator\<close>

subsection \<open>Collaborators\<close>

type_synonym driver_Document = string

text \<open>\<open>tjson.Schema\<close> is opaque here: a tag stands for its contents.\<close>

datatype Schema = Schema nat

text \<open>
  \<open>driver.Iterator\<close> of the Tigris client: \<open>Next(&d)\<close> stores the next record and returns
  true, or returns false at the end of the stream or on a failure; \<open>Err()\<close> then reports the
  failure, or nil at the natural end. The records still to come and the failure that
  follows them describe such a cursor.
\<close>

record driver_Iterator =
  pending :: "driver_Document list"
  failure :: "error option"

definition driver_Next :: "driver_Iterator \<Rightarrow> bool \<times> driver_Document \<times> driver_Iterator" where
  "driver_Next c =
     (case pending c of
        [] \<Rightarrow> (False, [], c)
      | d # ds \<Rightarrow> (True, d, c\<lparr>pending := ds\<rparr>))"

definition driver_Err :: "driver_Iterator \<Rightarrow> error option" where
  "driver_Err c = failure c"

text \<open>\<open>TigrisDB\<close>, as far as the iterator uses it: \<open>RefreshCollectionSchema\<close> returns
  \<open>(*tjson.Schema, error)\<close>.\<close>

record TigrisDB =
  RefreshCollectionSchema :: "Context \<Rightarrow> string \<Rightarrow> string \<Rightarrow> Schema option \<times> error option"

text \<open>\<open>tjson.Unmarshal\<close>, which returns \<open>(any, error)\<close>, and \<open>IsInvalidArgument\<close> are
  defined elsewhere: parameters of the model.\<close>

record tigris_externals =
  Unmarshal :: "driver_Document \<Rightarrow> Schema option \<Rightarrow> val \<times> error option"
  IsInvalidArgument :: "error \<Rightarrow> bool"

text \<open>
  The calls an operation makes on its collaborators, in order: on the cursor, on the
  decoder, on the schema of the database, on the profile \<open>queryIteratorProfiles\<close> and on
  the finalizer (\<open>SetFinalizer True\<close> arms it, \<open>SetFinalizer False\<close> is
  \<open>runtime.SetFinalizer(iter, nil)\<close>).
\<close>

datatype event =
    DriverNext
  | DriverErr
  | DriverClose
  | UnmarshalCall driver_Document "Schema option"
  | RefreshCall string string
  | ProfileAdd
  | ProfileRemove
  | SetFinalizer bool

subsection \<open>queryIterator\<close>

text \<open>
  The fields of \<open>queryIterator\<close>; \<open>iter\<close> is nil once the iterator is closed. The mutex
  \<open>m\<close> serialises \<open>Next\<close> and \<open>Close\<close>, which the model runs one after the other; \<open>stack\<close>
  is only read by the finalizer.
\<close>

record queryIterator =
  ctx :: Context
  schema :: "Schema option"
  iter :: "driver_Iterator option"
  db :: TigrisDB
  dbName :: string
  collName :: string

definition newQueryIterator ::
  "Context \<Rightarrow> TigrisDB \<Rightarrow> string \<Rightarrow> string \<Rightarrow> driver_Iterator option \<Rightarrow> Schema option
     \<Rightarrow> queryIterator \<times> event list" where
  "newQueryIterator c tdb dbn colln titer sch =
     (\<lparr>ctx = c, schema = sch, iter = titer, db = tdb, dbName = dbn, collName = colln\<rparr>,
      [ProfileAdd, SetFinalizer True])"

text \<open>\<open>var unused struct{}\<close>, the first value of every return of \<open>Next\<close>.\<close>

definition unused :: unit where
  "unused = ()"

text \<open>\<open>close\<close>: closes the iterator without holding the mutex. The removal from the
  profile and the clearing of the finalizer are done on every call; the cursor's \<open>Close\<close> is
  called under the guard \<open>iter.iter != nil\<close> only, so no call is made on a nil cursor.\<close>

definition close :: "queryIterator \<Rightarrow> queryIterator \<times> event list" where
  "close it =
     (case iter it of
        Some cur \<Rightarrow> (it\<lparr>iter := None\<rparr>, [ProfileRemove, SetFinalizer False, DriverClose])
      | None \<Rightarrow> (it, [ProfileRemove, SetFinalizer False]))"

definition Close :: "queryIterator \<Rightarrow> queryIterator \<times> event list" where
  "Close it = close it"

text \<open>The last statement of \<open>Next\<close>, \<open>return unused, doc.(*types.Document), nil\<close>: the
  type assertion panics on a value that is not a document.\<close>

definition returnDocument :: "val \<Rightarrow> (unit \<times> document option \<times> error option) outcome" where
  "returnDocument doc =
     (case doc of
        Document d \<Rightarrow> Return (unused, Some d, None)
      | _ \<Rightarrow> Panic ''interface conversion'')"

text \<open>\<open>Next\<close> returns \<open>(struct{}, *types.Document, error)\<close>, or panics; with it the model
  gives the iterator afterwards and the calls made.\<close>

definition Next ::
  "tigris_externals \<Rightarrow> queryIterator
     \<Rightarrow> (unit \<times> document option \<times> error option) outcome \<times> queryIterator \<times> event list" where
  "Next X it =
     (case iter it of
        None \<Rightarrow> (Return (unused, None, Some ErrIteratorDone), it, [])
      | Some cur \<Rightarrow>
        (case Context_Err (ctx it) of
           Some err \<Rightarrow> (Return (unused, None, Some err), it, [])
         | None \<Rightarrow>
           (case driver_Next cur of (ok, document, cur') \<Rightarrow>
              let it1 = it\<lparr>iter := Some cur'\<rparr> in
              if \<not> ok then
                (let fatal = (case driver_Err cur' of
                                None \<Rightarrow> None
                              | Some err \<Rightarrow> if IsInvalidArgument X err then None else Some err)
                 in
                 case fatal of
                   Some err \<Rightarrow>
                     (Return (unused, None, Some (lazyerrors_Error err)), it1,
                      [DriverNext, DriverErr])
                 | None \<Rightarrow>
                     (case close it1 of (it2, evs) \<Rightarrow>
                        (Return (unused, None, Some ErrIteratorDone), it2,
                         [DriverNext, DriverErr] @ evs)))
              else
                (case Unmarshal X document (schema it1) of
                   (doc, None) \<Rightarrow>
                     (returnDocument doc, it1,
                      [DriverNext, UnmarshalCall document (schema it1)])
                 | (doc, Some err) \<Rightarrow>
                     (case RefreshCollectionSchema (db it1) (ctx it1) (dbName it1) (collName it1) of
                        (sch, r) \<Rightarrow>
                          let it2 = it1\<lparr>schema := sch\<rparr>;
                              evs = [DriverNext, UnmarshalCall document (schema it1),
                                     RefreshCall (dbName it1) (collName it1)]
                          in
                          (case r of
                             Some err \<Rightarrow>
                               (Return (unused, None, Some (lazyerrors_Error err)), it2, evs)
                           | None \<Rightarrow>
                               (case Unmarshal X document (schema it2) of
                                  (doc, Some err) \<Rightarrow>
                                    (Return (unused, None, Some (lazyerrors_Error err)), it2,
                                     evs @ [UnmarshalCall document (schema it2)])
                                | (doc, None) \<Rightarrow>
                                    (returnDocument doc, it2,
                                     evs @ [UnmarshalCall document (schema it2)]))))))))"

subsection \<open>Sequences of calls on one iterator\<close>

text \<open>What a caller can do with an iterator between its creation and its end: call
  \<open>Next\<close>, call \<open>Close\<close>, and cancel its context or let its deadline pass.\<close>

datatype call = CallNext | CallClose | ContextBecomes Context

fun run :: "tigris_externals \<Rightarrow> call list \<Rightarrow> queryIterator \<Rightarrow> queryIterator \<times> event list" where
  "run X [] it = (it, [])"
| "run X (CallNext # cs) it =
     (case Next X it of (r, it', evs) \<Rightarrow>
        (case run X cs it' of (it'', evs') \<Rightarrow> (it'', evs @ evs')))"
| "run X (CallClose # cs) it =
     (case Close it of (it', evs) \<Rightarrow>
        (case run X cs it' of (it'', evs') \<Rightarrow> (it'', evs @ evs')))"
| "run X (ContextBecomes c # cs) it = run X cs (it\<lparr>ctx := c\<rparr>)"


section \<open>Predicates of the properties and concrete inputs\<close>

text \<open>The value kinds the scalar branches list:
  \<open>float64, string, types.ObjectID, bool, time.Time, int32, int64\<close>.\<close>

fun pushdownScalar :: "val \<Rightarrow> bool" where
  "pushdownScalar (Float64 f) = True"
| "pushdownScalar (String s) = True"
| "pushdownScalar (ObjectID i) = True"
| "pushdownScalar (Bool b) = True"
| "pushdownScalar (Time t) = True"
| "pushdownScalar (Int32 i) = True"
| "pushdownScalar (Int64 i) = True"
| "pushdownScalar _ = False"

text \<open>The value kinds that are not pushed when they stand directly on a key:
  array, binary, null, regex, backend timestamp.\<close>

fun notPushedValue :: "val \<Rightarrow> bool" where
  "notPushedValue (Array a) = True"
| "notPushedValue (Binary b) = True"
| "notPushedValue NullType = True"
| "notPushedValue (Regex r opts) = True"
| "notPushedValue (Timestamp t) = True"
| "notPushedValue _ = False"

text \<open>A key that parses to a path of more than one segment.\<close>

definition dottedKey :: "externals \<Rightarrow> string \<Rightarrow> bool" where
  "dottedKey X k =
     (case NewPathFromString X k of
        (path, None) \<Rightarrow> length path > 1
      | (path, Some err) \<Rightarrow> False)"

text \<open>An entry that must leave no trace in the fragment: a directive key, a dotted key,
  or a value kind that is not pushed.\<close>

definition skippedEntry :: "externals \<Rightarrow> string \<times> val \<Rightarrow> bool" where
  "skippedEntry X entry =
     (HasPrefix (fst entry) ''$'' \<or> dottedKey X (fst entry) \<or> notPushedValue (snd entry))"

text \<open>A key whose value is classified: not a directive, and its path has one segment or
  fails to parse with the empty-key error only.\<close>

definition plainField :: "externals \<Rightarrow> string \<Rightarrow> bool" where
  "plainField X k =
     (\<not> HasPrefix k ''$'' \<and>
      (case NewPathFromString X k of
         (path, None) \<Rightarrow> length path \<le> 1
       | (path, Some err) \<Rightarrow> errors_As_DocumentPathError err = Some ErrDocumentPathEmptyKey))"

text \<open>Concrete collaborators to run the compiler with: the path parser of the spec, and a
  marshaller and a type-tag function defined on 32-bit integers and strings.\<close>

definition exampleExternals :: externals where
  "exampleExternals =
     \<lparr>NewPathFromString = specNewPathFromString,
      MarshalSingleValue =
        (\<lambda>v. case v of
                Int32 i \<Rightarrow> (Itoa (unat i), None)
              | String s \<Rightarrow> ([CHR 0x22] @ s @ [CHR 0x22], None)
              | _ \<Rightarrow> ([], Some (ErrorString ''not marshalled here''))),
      GetTypeOfValue =
        (\<lambda>v. case v of Int32 i \<Rightarrow> ''int'' | String s \<Rightarrow> ''string'' | _ \<Rightarrow> ''other'')\<rparr>"

text \<open>A backend with the single collection \<open>users\<close>, stored in the table \<open>users_1\<close>.\<close>

definition exampleBackend :: "unit backend" where
  "exampleBackend =
     \<lparr>CollectionExists = (\<lambda>c d n. (n = ''users'', None)),
      getTableName =
        (\<lambda>c d n. if n = ''users'' then (''users_1'', None)
                  else ([], Some (LazyError ErrTableNotExist))),
      Query = (\<lambda>c q args. (\<lparr>remaining = [], rowsErr = None\<rparr>, None)),
      Sanitize = (\<lambda>parts. Join parts ''.''),
      json_Unmarshal = (\<lambda>b. ([], None)),
      ConvertJSON = (\<lambda>j. Document []),
      pjson_Unmarshal = (\<lambda>b. ([], None))\<rparr>"

definition missingCollection :: QueryParams where
  "missingCollection =
     \<lparr>Filter = None, DB = ''test'', Collection = ''missing'', Comment = [], ExplainFlag = False\<rparr>"

text \<open>A decoder that succeeds under the schema 2 only, a backend error 3 that is the
  "invalid argument" condition, and a database whose current schema is 2.\<close>

definition exampleTigris :: tigris_externals where
  "exampleTigris =
     \<lparr>Unmarshal =
        (\<lambda>d s. if s = Some (Schema 2) then (Document [(''_id'', String d)], None)
               else (NullType, Some (ErrorString ''schema mismatch''))),
      IsInvalidArgument = (\<lambda>e. e = BackendError 3)\<rparr>"

definition exampleDB :: TigrisDB where
  "exampleDB = \<lparr>RefreshCollectionSchema = (\<lambda>c d n. (Some (Schema 2), None))\<rparr>"

definition exampleIterator ::
  "Context \<Rightarrow> Schema option \<Rightarrow> driver_Iterator option \<Rightarrow> queryIterator" where
  "exampleIterator c s cur =
     \<lparr>ctx = c, schema = s, iter = cur, db = exampleDB, dbName = ''db'', collName = ''coll''\<rparr>"

section \<open>The filter compiler: properties\<close>

subsection \<open>No branch of the value switch returns an error\<close>

lemma pushEq_no_err: "pushEq X k v st \<noteq> ReturnErr e"
  by (auto simp: pushEq_def split: prod.splits option.splits)

lemma pushNe_no_err: "pushNe X k v st \<noteq> ReturnErr e"
  by (auto simp: pushNe_def Let_def split: prod.splits option.splits)

lemma opEq_no_err: "opEq X k v st \<noteq> ReturnErr e"
  by (cases v) (simp_all add: pushEq_no_err)

lemma opNe_no_err: "opNe X k v st \<noteq> ReturnErr e"
  by (cases v) (simp_all add: pushNe_no_err)

lemma subdocumentLoop_no_err: "subdocumentLoop X k d st \<noteq> ReturnErr e"
proof (induction d arbitrary: st)
  case Nil
  then show ?case by simp
next
  case (Cons kv d)
  obtain k' v where kv: "kv = (k', v)" by (cases kv)
  show ?case
    by (auto simp: kv opEq_no_err opNe_no_err Cons.IH split: flow.splits)
qed

lemma rootValue_no_err: "rootValue X k v st \<noteq> ReturnErr e"
  by (cases v) (simp_all add: pushEq_no_err subdocumentLoop_no_err)

subsection \<open>Keys that fail to parse with the empty-key error\<close>

text \<open>
  C1, as the code has it: an entry whose key fails path parsing with the empty-key error
  never makes the compilation return an error. The error is ignored, not the entry: the
  entry is skipped when its key starts with \<open>$\<close> (before any parsing), and otherwise its
  value is classified as for a key of one segment, so that a scalar value, or a scalar
  under \<open>$eq\<close> or \<open>$ne\<close>, still emits a predicate and two arguments.
\<close>

theorem rootEntry_empty_key_ignored:
  assumes "NewPathFromString X k = (path, Some err)"
    and "errors_As_DocumentPathError err = Some ErrDocumentPathEmptyKey"
  shows "rootEntry X (k, v) st = (if HasPrefix k ''$'' then Continue st else rootValue X k v st) \<and>
         (\<forall>e. rootEntry X (k, v) st \<noteq> ReturnErr e)"
  using assms by (simp add: rootEntry_def rootValue_no_err)

theorem rootEntry_empty_key_ignored_witness:
  "NewPathFromString exampleExternals ''a.'' = ([], Some (DocumentPathError ErrDocumentPathEmptyKey)) \<and>
   errors_As_DocumentPathError (DocumentPathError ErrDocumentPathEmptyKey)
     = Some ErrDocumentPathEmptyKey \<and>
   rootEntry exampleExternals (''a.'', String ''x'') ([], [], 0)
     = Continue ([''_jsonb->$1 @> $2''], [''a.'', [CHR 0x22] @ ''x'' @ [CHR 0x22]], 2)"
proof -
  have h1: "NewPathFromString exampleExternals ''a.''
              = ([], Some (DocumentPathError ErrDocumentPathEmptyKey))"
    by (simp add: exampleExternals_def specNewPathFromString_def)
  have h2: "errors_As_DocumentPathError (DocumentPathError ErrDocumentPathEmptyKey)
              = Some ErrDocumentPathEmptyKey"
    by simp
  have "rootEntry exampleExternals (''a.'', String ''x'') ([], [], 0)
          = Continue ([''_jsonb->$1 @> $2''], [''a.'', [CHR 0x22] @ ''x'' @ [CHR 0x22]], 2)"
    using rootEntry_empty_key_ignored [OF h1 h2, of "String ''x''" "([], [], 0)"]
    by (simp add: HasPrefix_def pushEq_def Placeholder_Next_def Itoa.simps digit_def
        exampleExternals_def)
  with h1 h2 show ?thesis by blast
qed

text \<open>
  The filter \<open>{"": 42}\<close>: the key fails to parse with the empty-key error, and the
  compiled fragment holds a predicate and two arguments for it, where the filter without
  the entry compiles to the empty fragment.
\<close>

theorem empty_key_entry_pushed_counterexample:
  "NewPathFromString exampleExternals [] = ([], Some (DocumentPathError ErrDocumentPathEmptyKey)) \<and>
   prepareWhereClause exampleExternals (Some [([], Int32 42)]) =
     Return ('' WHERE _jsonb->$1 @> $2'', [[], ''42''], None) \<and>
   prepareWhereClause exampleExternals (Some []) = Return ([], [], None)"
  by (simp add: prepareWhereClause_def rootEntry_def exampleExternals_def HasPrefix_def
      specNewPathFromString_def pushEq_def Placeholder_Next_def Itoa.simps digit_def)

subsection \<open>Entries that are not pushed down\<close>

lemma rootLoop_append:
  "rootLoop X (xs @ ys) st =
     (case rootLoop X xs st of
        Continue st' \<Rightarrow> rootLoop X ys st'
      | ReturnErr e \<Rightarrow> ReturnErr e
      | Panicked m \<Rightarrow> Panicked m)"
  by (induction xs arbitrary: st) (auto split: flow.splits)

lemma skipped_rootEntry:
  assumes "skippedEntry X entry" and "rootEntry X entry st = Continue st'"
  shows "st' = st"
proof -
  obtain k v where e: "entry = (k, v)" by (cases entry)
  have nv: "notPushedValue v \<Longrightarrow> rootValue X k v st = Continue st"
    by (cases v) simp_all
  show ?thesis
    using assms nv unfolding e skippedEntry_def dottedKey_def rootEntry_def
    by (auto split: if_splits prod.splits option.splits)
qed

lemma skipped_rootLoop:
  assumes "skippedEntry X entry" and "rootLoop X (xs @ entry # ys) st = Continue fin"
  shows "rootLoop X (xs @ ys) st = Continue fin"
proof -
  from assms(2) obtain st1 where a: "rootLoop X xs st = Continue st1"
    and b: "rootLoop X (entry # ys) st1 = Continue fin"
    by (auto simp: rootLoop_append split: flow.splits)
  from b obtain st2 where c: "rootEntry X entry st1 = Continue st2"
    and d: "rootLoop X ys st2 = Continue fin"
    by (auto split: flow.splits)
  from skipped_rootEntry [OF assms(1) c] have "st2 = st1" .
  with a d show ?thesis by (simp add: rootLoop_append)
qed

text \<open>
  C6: a top-level entry whose key starts with \<open>$\<close>, whose key parses to a path of more
  than one segment, or whose direct value is an array, binary, null, regex or backend
  timestamp contributes neither predicate text nor arguments: whenever a filter with such
  an entry compiles to a fragment, the filter without the entry compiles to the same
  clause and the same arguments.
\<close>

theorem skipped_entry_not_in_fragment:
  assumes "skippedEntry X entry"
    and "prepareWhereClause X (Some (xs @ entry # ys)) = Return (wh, args, None)"
  shows "prepareWhereClause X (Some (xs @ ys)) = Return (wh, args, None)"
proof -
  from assms(2) obtain fin where f: "rootLoop X (xs @ entry # ys) ([], [], 0) = Continue fin"
    by (auto simp: prepareWhereClause_def split: flow.splits)
  from skipped_rootLoop [OF assms(1) f]
  have "rootLoop X (xs @ ys) ([], [], 0) = Continue fin" .
  with f assms(2) show ?thesis by (simp add: prepareWhereClause_def)
qed

theorem skipped_entry_not_in_fragment_witness:
  "skippedEntry exampleExternals (''b.c'', Int32 2) \<and>
   prepareWhereClause exampleExternals
      (Some ([(''a'', Int32 1)] @ (''b.c'', Int32 2) # [(''d'', NullType), (''e'', Int32 5)]))
     = Return ('' WHERE _jsonb->$1 @> $2 AND _jsonb->$3 @> $4'', [''a'', ''1'', ''e'', ''5''], None) \<and>
   prepareWhereClause exampleExternals
      (Some ([(''a'', Int32 1)] @ [(''d'', NullType), (''e'', Int32 5)]))
     = Return ('' WHERE _jsonb->$1 @> $2 AND _jsonb->$3 @> $4'', [''a'', ''1'', ''e'', ''5''], None)"
proof -
  have h1: "skippedEntry exampleExternals (''b.c'', Int32 2)"
    by (simp add: skippedEntry_def dottedKey_def HasPrefix_def exampleExternals_def
        specNewPathFromString_def)
  have h2: "prepareWhereClause exampleExternals
      (Some ([(''a'', Int32 1)] @ (''b.c'', Int32 2) # [(''d'', NullType), (''e'', Int32 5)]))
     = Return ('' WHERE _jsonb->$1 @> $2 AND _jsonb->$3 @> $4'', [''a'', ''1'', ''e'', ''5''], None)"
    by (simp add: prepareWhereClause_def rootEntry_def exampleExternals_def HasPrefix_def
        specNewPathFromString_def pushEq_def Placeholder_Next_def Itoa.simps digit_def)
  from h1 h2 skipped_entry_not_in_fragment [OF h1 h2] show ?thesis by blast
qed

subsection \<open>The predicate of \<open>$ne\<close>\<close>

text \<open>One pass of the root loop over an entry \<open>{field: {$ne: v}}\<close>, from any state.\<close>

lemma rootEntry_ne_scalar:
  assumes "plainField X field" and "pushdownScalar v"
    and "MarshalSingleValue X v = (b, None)"
  shows "rootEntry X (field, Document [(''$ne'', v)]) (filters, args, p) =
           Continue (filters @
                      [''NOT ( _jsonb ? $'' @ Itoa (p + 1) @
                       '' AND _jsonb->$'' @ Itoa (p + 1) @ '' @> $'' @ Itoa (p + 2) @
                       '' AND _jsonb->'' @ [CHR 0x27] @ ''$s'' @ [CHR 0x27] @ ''->'' @ [CHR 0x27] @
                       ''p'' @ [CHR 0x27] @ ''->$'' @ Itoa (p + 1) @ ''->'' @ [CHR 0x27] @ ''t'' @
                       [CHR 0x27] @ '' = '' @ [CHR 0x27, CHR 0x22] @ GetTypeOfValue X v @
                       [CHR 0x22, CHR 0x27] @ '' )''],
                     args @ [field, b], p + 2)"
proof -
  have ne: "opNe X field v (filters, args, p) = pushNe X field v (filters, args, p)"
    using assms(2) by (cases v) simp_all
  have "rootEntry X (field, Document [(''$ne'', v)]) (filters, args, p) =
          rootValue X field (Document [(''$ne'', v)]) (filters, args, p)"
    using assms(1) by (auto simp: plainField_def rootEntry_def split: prod.splits option.splits)
  also have "\<dots> = pushNe X field v (filters, args, p)"
    using ne by (auto simp: pushNe_def Let_def Placeholder_Next_def assms(3) split: flow.splits)
  also have "\<dots> = Continue (filters @
                      [''NOT ( _jsonb ? $'' @ Itoa (p + 1) @
                       '' AND _jsonb->$'' @ Itoa (p + 1) @ '' @> $'' @ Itoa (p + 2) @
                       '' AND _jsonb->'' @ [CHR 0x27] @ ''$s'' @ [CHR 0x27] @ ''->'' @ [CHR 0x27] @
                       ''p'' @ [CHR 0x27] @ ''->$'' @ Itoa (p + 1) @ ''->'' @ [CHR 0x27] @ ''t'' @
                       [CHR 0x27] @ '' = '' @ [CHR 0x27, CHR 0x22] @ GetTypeOfValue X v @
                       [CHR 0x22, CHR 0x27] @ '' )''],
                     args @ [field, b], p + 2)"
    by (simp add: pushNe_def Let_def Placeholder_Next_def assms(3) add.assoc)
  finally show ?thesis .
qed

text \<open>Every pass hands out as many placeholders as it appends arguments.\<close>

lemma pushEq_count:
  "pushEq X k v (fs, as, p) = Continue (fs', as', p') \<Longrightarrow> p' + length as = p + length as'"
  by (auto simp: pushEq_def Placeholder_Next_def Let_def split: prod.splits option.splits)

lemma pushNe_count:
  "pushNe X k v (fs, as, p) = Continue (fs', as', p') \<Longrightarrow> p' + length as = p + length as'"
  by (auto simp: pushNe_def Placeholder_Next_def Let_def split: prod.splits option.splits)

lemma opEq_count:
  "opEq X k v (fs, as, p) = Continue (fs', as', p') \<Longrightarrow> p' + length as = p + length as'"
  by (cases v) (auto dest: pushEq_count)

lemma opNe_count:
  "opNe X k v (fs, as, p) = Continue (fs', as', p') \<Longrightarrow> p' + length as = p + length as'"
  by (cases v) (auto dest: pushNe_count)

lemma subdocumentLoop_count:
  "subdocumentLoop X k d (fs, as, p) = Continue (fs', as', p') \<Longrightarrow>
     p' + length as = p + length as'"
proof (induction d arbitrary: fs as p)
  case Nil
  then show ?case by simp
next
  case (Cons kv d)
  obtain k' v where kv: "kv = (k', v)" by (cases kv)
  from Cons.prems obtain fs1 as1 p1 where
    step: "(if k' = ''$eq'' then opEq X k v (fs, as, p)
            else if k' = ''$ne'' then opNe X k v (fs, as, p)
            else Continue (fs, as, p)) = Continue (fs1, as1, p1)"
    and rest: "subdocumentLoop X k d (fs1, as1, p1) = Continue (fs', as', p')"
    by (auto simp: kv split: flow.splits)
  from step have "p1 + length as = p + length as1"
    by (auto split: if_splits dest: opEq_count opNe_count)
  with Cons.IH [OF rest] show ?case by simp
qed

lemma rootValue_count:
  "rootValue X k v (fs, as, p) = Continue (fs', as', p') \<Longrightarrow> p' + length as = p + length as'"
  by (cases v) (auto dest: pushEq_count subdocumentLoop_count)

lemma rootEntry_count:
  "rootEntry X entry (fs, as, p) = Continue (fs', as', p') \<Longrightarrow> p' + length as = p + length as'"
  by (cases entry)
     (auto simp: rootEntry_def split: if_splits prod.splits option.splits dest: rootValue_count)

lemma rootLoop_count:
  "rootLoop X xs (fs, as, p) = Continue (fs', as', p') \<Longrightarrow> p' + length as = p + length as'"
proof (induction xs arbitrary: fs as p)
  case Nil
  then show ?case by simp
next
  case (Cons entry xs)
  from Cons.prems obtain fs1 as1 p1 where
    step: "rootEntry X entry (fs, as, p) = Continue (fs1, as1, p1)"
    and rest: "rootLoop X xs (fs1, as1, p1) = Continue (fs', as', p')"
    by (auto split: flow.splits)
  from rootEntry_count [OF step] Cons.IH [OF rest] show ?case by simp
qed

lemma Join_snoc:
  "Join (fs @ [x]) sep = (if fs = [] then x else Join fs sep @ sep @ x)"
  by (induction fs sep rule: Join.induct) auto

text \<open>
  C7, as the code has it: the predicate of \<open>$ne\<close> is emitted for the entries whose value
  is classified, not for every entry. For an entry \<open>{field: {$ne: v}}\<close> with \<open>v\<close> a
  pushdown-eligible scalar whose encoding succeeds, and \<open>field\<close> a key that does not start
  with \<open>$\<close> and does not parse to a path of more than one segment, appended to any filter
  that compiles to the clause \<open>wh\<close> with the arguments \<open>args\<close>, \<open>prepareWhereClause\<close>
  returns \<open>wh\<close> extended (after \<open>WHERE\<close>, or after \<open>AND\<close>) by exactly one predicate
  \<open>NOT ( ... AND ... AND ... )\<close>, whose conjuncts are the existence of the key
  (\<open>_jsonb ? $i\<close>), the containment of the encoded value (\<open>_jsonb->$i @> $j\<close>) and the
  equality of the recorded type tag with the type of \<open>v\<close>
  (\<open>_jsonb->'$s'->'p'->$i->'t' = '"type"'\<close>), and \<open>args\<close> extended by \<open>field\<close> and the
  encoded \<open>v\<close>; \<open>$i\<close> and \<open>$j\<close> are the next two placeholders. (An entry whose key starts
  with \<open>$\<close> or is a dotted path emits nothing, whatever its value.)
\<close>

theorem ne_scalar_predicate:
  assumes "plainField X field" and "pushdownScalar v"
    and "MarshalSingleValue X v = (b, None)"
    and "prepareWhereClause X (Some xs) = Return (wh, args, None)"
  shows "prepareWhereClause X (Some (xs @ [(field, Document [(''$ne'', v)])])) =
           Return ((if wh = [] then '' WHERE '' else wh @ '' AND '') @
                   ''NOT ( _jsonb ? $'' @ Itoa (length args + 1) @
                   '' AND _jsonb->$'' @ Itoa (length args + 1) @
                   '' @> $'' @ Itoa (length args + 2) @
                   '' AND _jsonb->'' @ [CHR 0x27] @ ''$s'' @ [CHR 0x27] @ ''->'' @ [CHR 0x27] @
                   ''p'' @ [CHR 0x27] @ ''->$'' @ Itoa (length args + 1) @ ''->'' @ [CHR 0x27] @
                   ''t'' @ [CHR 0x27] @ '' = '' @ [CHR 0x27, CHR 0x22] @ GetTypeOfValue X v @
                   [CHR 0x22, CHR 0x27] @ '' )'',
                   args @ [field, b], None)"
proof -
  from assms(4) obtain filters p where
    loop: "rootLoop X xs ([], [], 0) = Continue (filters, args, p)"
    and wh: "wh = (if length filters > 0 then '' WHERE '' @ Join filters '' AND '' else [])"
    by (auto simp: prepareWhereClause_def split: flow.splits)
  from rootLoop_count [OF loop] have p: "p = length args" by simp
  have e: "wh = [] \<longleftrightarrow> filters = []" using wh by simp
  have "rootLoop X (xs @ [(field, Document [(''$ne'', v)])]) ([], [], 0) =
          rootEntry X (field, Document [(''$ne'', v)]) (filters, args, p)"
    by (simp add: rootLoop_append loop split: flow.splits)
  then show ?thesis
    using wh e
    by (simp add: prepareWhereClause_def rootEntry_ne_scalar [OF assms(1,2,3)] Join_snoc p)
qed

theorem ne_scalar_predicate_witness:
  "plainField exampleExternals ''v'' \<and> pushdownScalar (Int32 42) \<and>
   MarshalSingleValue exampleExternals (Int32 42) = (''42'', None) \<and>
   prepareWhereClause exampleExternals (Some [(''a'', Int32 1)])
     = Return ('' WHERE _jsonb->$1 @> $2'', [''a'', ''1''], None) \<and>
   prepareWhereClause exampleExternals
      (Some ([(''a'', Int32 1)] @ [(''v'', Document [(''$ne'', Int32 42)])])) =
     Return ('' WHERE _jsonb->$1 @> $2 AND NOT ( _jsonb ? $3 AND _jsonb->$3 @> $4 AND _jsonb->'' @
             [CHR 0x27] @ ''$s'' @ [CHR 0x27] @ ''->'' @ [CHR 0x27] @ ''p'' @ [CHR 0x27] @
             ''->$3->'' @ [CHR 0x27] @ ''t'' @ [CHR 0x27] @ '' = '' @ [CHR 0x27, CHR 0x22] @
             ''int'' @ [CHR 0x22, CHR 0x27] @ '' )'',
             [''a'', ''1'', ''v'', ''42''], None)"
proof -
  have h1: "plainField exampleExternals ''v''"
    by (simp add: plainField_def HasPrefix_def exampleExternals_def specNewPathFromString_def)
  have h2: "pushdownScalar (Int32 42)" by simp
  have h3: "MarshalSingleValue exampleExternals (Int32 42) = (''42'', None)"
    by (simp add: exampleExternals_def Itoa.simps digit_def)
  have h4: "prepareWhereClause exampleExternals (Some [(''a'', Int32 1)])
     = Return ('' WHERE _jsonb->$1 @> $2'', [''a'', ''1''], None)"
    by (simp add: prepareWhereClause_def rootEntry_def exampleExternals_def HasPrefix_def
        specNewPathFromString_def pushEq_def Placeholder_Next_def Itoa.simps digit_def)
  have "prepareWhereClause exampleExternals
      (Some ([(''a'', Int32 1)] @ [(''v'', Document [(''$ne'', Int32 42)])])) =
     Return ('' WHERE _jsonb->$1 @> $2 AND NOT ( _jsonb ? $3 AND _jsonb->$3 @> $4 AND _jsonb->'' @
             [CHR 0x27] @ ''$s'' @ [CHR 0x27] @ ''->'' @ [CHR 0x27] @ ''p'' @ [CHR 0x27] @
             ''->$3->'' @ [CHR 0x27] @ ''t'' @ [CHR 0x27] @ '' = '' @ [CHR 0x27, CHR 0x22] @
             ''int'' @ [CHR 0x22, CHR 0x27] @ '' )'',
             [''a'', ''1'', ''v'', ''42''], None)"
    using ne_scalar_predicate [OF h1 h2 h3 h4]
    by (simp add: Itoa.simps digit_def exampleExternals_def)
  with h1 h2 h3 h4 show ?thesis by blast
qed

text \<open>
  The filters \<open>{"a.b": {$ne: 42}}\<close> and \<open>{"$x": {$ne: 42}}\<close>: the value under \<open>$ne\<close> is a
  pushdown-eligible scalar, and the compiled fragment is empty, with no predicate and no
  argument.
\<close>

theorem ne_dotted_key_not_pushed_counterexample:
  "pushdownScalar (Int32 42) \<and>
   prepareWhereClause exampleExternals (Some [(''a.b'', Document [(''$ne'', Int32 42)])])
     = Return ([], [], None) \<and>
   prepareWhereClause exampleExternals (Some [(''$x'', Document [(''$ne'', Int32 42)])])
     = Return ([], [], None)"
  by (simp add: prepareWhereClause_def rootEntry_def exampleExternals_def HasPrefix_def
      specNewPathFromString_def)


section \<open>Explain and QueryDocuments: a collection that does not exist\<close>

text \<open>
  C8: when the collection named by the query parameters does not exist
  (\<open>getTableName\<close> fails with \<open>ErrTableNotExist\<close>, possibly wrapped), \<open>QueryDocuments\<close>
  returns an iterator and a nil error, and the first \<open>Next\<close> of that iterator reports
  \<open>ErrIteratorDone\<close>.
\<close>

theorem QueryDocuments_missing_collection:
  assumes "getTableName B c (DB qp) (Collection qp) = (t, Some err)"
    and "errors_Is err ErrTableNotExist"
  shows "QueryDocuments X B c qp = Return (Some (newIterator c None), None) \<and>
         pgNext B (newIterator c None) = ((0, None, Some ErrIteratorDone), newIterator c None)"
  using assms by (simp add: QueryDocuments_def pgNext_def newIterator_def)

theorem QueryDocuments_missing_collection_witness:
  "getTableName exampleBackend Background (DB missingCollection) (Collection missingCollection)
     = ([], Some (LazyError ErrTableNotExist)) \<and>
   errors_Is (LazyError ErrTableNotExist) ErrTableNotExist \<and>
   QueryDocuments exampleExternals exampleBackend Background missingCollection
     = Return (Some (newIterator Background None), None) \<and>
   pgNext exampleBackend (newIterator Background None)
     = ((0, None, Some ErrIteratorDone), newIterator Background None)"
proof -
  have h1: "getTableName exampleBackend Background (DB missingCollection)
              (Collection missingCollection) = ([], Some (LazyError ErrTableNotExist))"
    by (simp add: exampleBackend_def missingCollection_def)
  have h2: "errors_Is (LazyError ErrTableNotExist) ErrTableNotExist" by simp
  from h1 h2 QueryDocuments_missing_collection [OF h1 h2, of exampleExternals]
  show ?thesis by blast
qed

text \<open>
  C10: when the collection named by the query parameters does not exist
  (\<open>CollectionExists\<close> answers false, with no error), \<open>Explain\<close> returns no plan document
  and the error \<open>ErrTableNotExist\<close> wrapped by \<open>lazyerrors.Error\<close>.
\<close>

theorem Explain_missing_collection:
  assumes "CollectionExists B c (DB qp) (Collection qp) = (False, None)"
  shows "Explain X B c qp = Return (None, Some (LazyError ErrTableNotExist))"
  using assms by (simp add: Explain_def lazyerrors_Error_def)

theorem Explain_missing_collection_witness:
  "CollectionExists exampleBackend Background (DB missingCollection) (Collection missingCollection)
     = (False, None) \<and>
   Explain exampleExternals exampleBackend Background missingCollection
     = Return (None, Some (LazyError ErrTableNotExist))"
proof -
  have h: "CollectionExists exampleBackend Background (DB missingCollection)
             (Collection missingCollection) = (False, None)"
    by (simp add: exampleBackend_def missingCollection_def)
  from h Explain_missing_collection [OF h, of exampleExternals] show ?thesis by blast
qed


section \<open>The query iterator: properties\<close>

lemma close_iter: "iter (fst (close it)) = None"
  by (simp add: close_def split: option.splits)

lemma Next_closed:
  "iter it = None \<Longrightarrow> Next X it = (Return (unused, None, Some ErrIteratorDone), it, [])"
  by (simp add: Next_def)

lemma Context_Err_not_done: "Context_Err c \<noteq> Some ErrIteratorDone"
  by (cases c) simp_all

lemma Next_done_closed:
  assumes "Next X it0 = (Return (u, dd, Some ErrIteratorDone), it, tr)"
  shows "iter it = None"
  using assms
  by (auto simp: Next_def close_def lazyerrors_Error_def returnDocument_def driver_Next_def
      Let_def Context_Err_not_done
      split: option.splits prod.splits if_splits list.splits val.splits)

subsection \<open>The first value of Next\<close>

text \<open>
  C2, as the code has it: the iterator keeps no counter. Every call of \<open>Next\<close> that
  returns a document returns as its first value the empty \<open>unused\<close>, and as its document
  the decoding of the next record of the cursor under the schema the iterator holds
  afterwards; the cursor has moved on by that one record.
\<close>

theorem Next_success_returns_unused:
  assumes "Next X it = (Return (i, Some d, None), it', evs)"
  shows "i = unused \<and>
         (\<exists>cur raw rest. iter it = Some cur \<and> pending cur = raw # rest \<and>
            iter it' = Some (cur\<lparr>pending := rest\<rparr>) \<and>
            Unmarshal X raw (schema it') = (Document d, None))"
  using assms
  by (auto simp: Next_def close_def driver_Next_def Let_def lazyerrors_Error_def
      returnDocument_def
      split: option.splits prod.splits if_splits list.splits val.splits)

theorem Next_success_returns_unused_witness:
  "Next exampleTigris
     (exampleIterator Background (Some (Schema 2)) (Some \<lparr>pending = [''a'', ''b''], failure = None\<rparr>))
     = (Return (unused, Some [(''_id'', String ''a'')], None),
        exampleIterator Background (Some (Schema 2)) (Some \<lparr>pending = [''b''], failure = None\<rparr>),
        [DriverNext, UnmarshalCall ''a'' (Some (Schema 2))]) \<and>
   (\<exists>cur raw rest.
      iter (exampleIterator Background (Some (Schema 2))
              (Some \<lparr>pending = [''a'', ''b''], failure = None\<rparr>)) = Some cur \<and>
      pending cur = raw # rest \<and>
      iter (exampleIterator Background (Some (Schema 2))
              (Some \<lparr>pending = [''b''], failure = None\<rparr>)) = Some (cur\<lparr>pending := rest\<rparr>) \<and>
      Unmarshal exampleTigris raw
        (schema (exampleIterator Background (Some (Schema 2))
                   (Some \<lparr>pending = [''b''], failure = None\<rparr>)))
        = (Document [(''_id'', String ''a'')], None))"
proof -
  have h: "Next exampleTigris
     (exampleIterator Background (Some (Schema 2)) (Some \<lparr>pending = [''a'', ''b''], failure = None\<rparr>))
     = (Return (unused, Some [(''_id'', String ''a'')], None),
        exampleIterator Background (Some (Schema 2)) (Some \<lparr>pending = [''b''], failure = None\<rparr>),
        [DriverNext, UnmarshalCall ''a'' (Some (Schema 2))])"
    by (simp add: Next_def exampleIterator_def exampleTigris_def driver_Next_def
        returnDocument_def)
  from h Next_success_returns_unused [OF h] show ?thesis by blast
qed

text \<open>
  Two calls of \<open>Next\<close> in a row on a cursor of two records: both return a document, and
  both return the same first value \<open>unused\<close>, which is not below itself.
\<close>

theorem Next_index_not_increasing_counterexample:
  "fst (Next exampleTigris
          (exampleIterator Background (Some (Schema 2))
             (Some \<lparr>pending = [''a'', ''b''], failure = None\<rparr>)))
     = Return (unused, Some [(''_id'', String ''a'')], None) \<and>
   fst (Next exampleTigris
          (fst (snd (Next exampleTigris
             (exampleIterator Background (Some (Schema 2))
                (Some \<lparr>pending = [''a'', ''b''], failure = None\<rparr>))))))
     = Return (unused, Some [(''_id'', String ''b'')], None) \<and>
   \<not> unused < unused"
  by (simp add: Next_def exampleIterator_def exampleTigris_def driver_Next_def
      returnDocument_def)

subsection \<open>A closed iterator\<close>

text \<open>
  C3: an iterator that is Closed, whether it was closed by \<open>Close\<close> or by a \<open>Next\<close> that
  reached the end of the cursor and returned \<open>ErrIteratorDone\<close>, answers every later
  \<open>Next\<close> with \<open>ErrIteratorDone\<close> whatever its context has become (cancelled, expired or
  neither): the test for closedness comes first, and no call is made on a collaborator.
\<close>

theorem Next_closed_done_before_cancellation:
  assumes "iter it = None \<or> (\<exists>it0. it = fst (Close it0)) \<or>
           (\<exists>it0 tr. Next X it0 = (Return (unused, None, Some ErrIteratorDone), it, tr))"
  shows "Next X (it\<lparr>ctx := c\<rparr>) = (Return (unused, None, Some ErrIteratorDone), it\<lparr>ctx := c\<rparr>, [])"
proof -
  have "iter it = None"
    using assms Next_done_closed by (auto simp: Close_def close_iter)
  then show ?thesis by (simp add: Next_closed)
qed

theorem Next_closed_done_before_cancellation_witness:
  "Next exampleTigris
     (exampleIterator Background (Some (Schema 2)) (Some \<lparr>pending = [], failure = None\<rparr>))
     = (Return (unused, None, Some ErrIteratorDone),
        exampleIterator Background (Some (Schema 2)) None,
        [DriverNext, DriverErr, ProfileRemove, SetFinalizer False, DriverClose]) \<and>
   Next exampleTigris ((exampleIterator Background (Some (Schema 2)) None)\<lparr>ctx := Cancelled\<rparr>)
     = (Return (unused, None, Some ErrIteratorDone),
        (exampleIterator Background (Some (Schema 2)) None)\<lparr>ctx := Cancelled\<rparr>, [])"
proof -
  have h: "Next exampleTigris
     (exampleIterator Background (Some (Schema 2)) (Some \<lparr>pending = [], failure = None\<rparr>))
     = (Return (unused, None, Some ErrIteratorDone),
        exampleIterator Background (Some (Schema 2)) None,
        [DriverNext, DriverErr, ProfileRemove, SetFinalizer False, DriverClose])"
    by (simp add: Next_def exampleIterator_def driver_Next_def driver_Err_def close_def)
  then have "iter (exampleIterator Background (Some (Schema 2)) None) = None \<or>
     (\<exists>it0. exampleIterator Background (Some (Schema 2)) None = fst (Close it0)) \<or>
     (\<exists>it0 tr. Next exampleTigris it0
         = (Return (unused, None, Some ErrIteratorDone),
            exampleIterator Background (Some (Schema 2)) None, tr))"
    by blast
  from h Next_closed_done_before_cancellation [OF this, of Cancelled] show ?thesis by blast
qed

subsection \<open>A cursor that fails to advance\<close>

text \<open>
  C4: when the cursor does not advance and reports an error, \<open>Next\<close> closes the iterator
  and returns \<open>ErrIteratorDone\<close> if the error is an "invalid argument" condition, and
  returns the error wrapped by \<open>lazyerrors.Error\<close>, leaving the iterator open, for any
  other error.
\<close>

theorem Next_advance_failure:
  assumes "iter it = Some cur" and "Context_Err (ctx it) = None"
    and "pending cur = []" and "failure cur = Some e"
  shows "Next X it =
     (if IsInvalidArgument X e
      then (Return (unused, None, Some ErrIteratorDone), it\<lparr>iter := None\<rparr>,
            [DriverNext, DriverErr, ProfileRemove, SetFinalizer False, DriverClose])
      else (Return (unused, None, Some (LazyError e)), it, [DriverNext, DriverErr]))"
  using assms
  by (simp add: Next_def driver_Next_def driver_Err_def close_def lazyerrors_Error_def)

theorem Next_advance_failure_witness:
  "Next exampleTigris
     (exampleIterator Background None (Some \<lparr>pending = [], failure = Some (BackendError 3)\<rparr>))
     = (Return (unused, None, Some ErrIteratorDone), exampleIterator Background None None,
        [DriverNext, DriverErr, ProfileRemove, SetFinalizer False, DriverClose]) \<and>
   Next exampleTigris
     (exampleIterator Background None (Some \<lparr>pending = [], failure = Some (BackendError 7)\<rparr>))
     = (Return (unused, None, Some (LazyError (BackendError 7))),
        exampleIterator Background None (Some \<lparr>pending = [], failure = Some (BackendError 7)\<rparr>),
        [DriverNext, DriverErr])"
proof -
  have a: "Next exampleTigris
     (exampleIterator Background None (Some \<lparr>pending = [], failure = Some (BackendError 3)\<rparr>))
     = (Return (unused, None, Some ErrIteratorDone), exampleIterator Background None None,
        [DriverNext, DriverErr, ProfileRemove, SetFinalizer False, DriverClose])"
    using Next_advance_failure [of
        "exampleIterator Background None (Some \<lparr>pending = [], failure = Some (BackendError 3)\<rparr>)"
        "\<lparr>pending = [], failure = Some (BackendError 3)\<rparr>" "BackendError 3" exampleTigris]
    by (simp add: exampleIterator_def exampleTigris_def)
  have b: "Next exampleTigris
     (exampleIterator Background None (Some \<lparr>pending = [], failure = Some (BackendError 7)\<rparr>))
     = (Return (unused, None, Some (LazyError (BackendError 7))),
        exampleIterator Background None (Some \<lparr>pending = [], failure = Some (BackendError 7)\<rparr>),
        [DriverNext, DriverErr])"
    using Next_advance_failure [of
        "exampleIterator Background None (Some \<lparr>pending = [], failure = Some (BackendError 7)\<rparr>)"
        "\<lparr>pending = [], failure = Some (BackendError 7)\<rparr>" "BackendError 7" exampleTigris]
    by (simp add: exampleIterator_def exampleTigris_def)
  from a b show ?thesis by blast
qed

subsection \<open>A record that does not decode under the cached schema\<close>

text \<open>
  C5: when the first decoding of a fetched record fails, \<open>Next\<close> calls
  \<open>RefreshCollectionSchema\<close> once and stores what it returns as the schema. If the refresh
  fails, \<open>Next\<close> returns that error wrapped, after one decoding in all. Otherwise it decodes
  the record once more under the new schema: a failure is returned wrapped, a document is
  returned with a nil error (a decoded value that is no document fails the type assertion
  of the return statement). No run decodes a third time.
\<close>

theorem Next_schema_retry_once:
  assumes "iter it = Some cur" and "Context_Err (ctx it) = None"
    and "pending cur = raw # rest"
    and "Unmarshal X raw (schema it) = (v0, Some e1)"
    and "RefreshCollectionSchema (db it) (ctx it) (dbName it) (collName it) = (sch, r)"
  shows "Next X it =
     (case r of
        Some e2 \<Rightarrow>
          (Return (unused, None, Some (LazyError e2)),
           it\<lparr>iter := Some (cur\<lparr>pending := rest\<rparr>), schema := sch\<rparr>,
           [DriverNext, UnmarshalCall raw (schema it), RefreshCall (dbName it) (collName it)])
      | None \<Rightarrow>
          (case Unmarshal X raw sch of
             (v, Some e3) \<Rightarrow>
               (Return (unused, None, Some (LazyError e3)),
                it\<lparr>iter := Some (cur\<lparr>pending := rest\<rparr>), schema := sch\<rparr>,
                [DriverNext, UnmarshalCall raw (schema it), RefreshCall (dbName it) (collName it),
                 UnmarshalCall raw sch])
           | (Document d, None) \<Rightarrow>
               (Return (unused, Some d, None),
                it\<lparr>iter := Some (cur\<lparr>pending := rest\<rparr>), schema := sch\<rparr>,
                [DriverNext, UnmarshalCall raw (schema it), RefreshCall (dbName it) (collName it),
                 UnmarshalCall raw sch])
           | (v, None) \<Rightarrow>
               (Panic ''interface conversion'',
                it\<lparr>iter := Some (cur\<lparr>pending := rest\<rparr>), schema := sch\<rparr>,
                [DriverNext, UnmarshalCall raw (schema it), RefreshCall (dbName it) (collName it),
                 UnmarshalCall raw sch])))"
  using assms
  by (simp add: Next_def driver_Next_def lazyerrors_Error_def returnDocument_def
      split: option.splits prod.splits val.splits)

theorem Next_schema_retry_once_witness:
  "Unmarshal exampleTigris ''a'' (Some (Schema 1)) = (NullType, Some (ErrorString ''schema mismatch'')) \<and>
   Next exampleTigris
     (exampleIterator Background (Some (Schema 1)) (Some \<lparr>pending = [''a'', ''b''], failure = None\<rparr>))
     = (Return (unused, Some [(''_id'', String ''a'')], None),
        exampleIterator Background (Some (Schema 2)) (Some \<lparr>pending = [''b''], failure = None\<rparr>),
        [DriverNext, UnmarshalCall ''a'' (Some (Schema 1)), RefreshCall ''db'' ''coll'',
         UnmarshalCall ''a'' (Some (Schema 2))])"
proof -
  have h: "Unmarshal exampleTigris ''a'' (Some (Schema 1))
             = (NullType, Some (ErrorString ''schema mismatch''))"
    by (simp add: exampleTigris_def)
  have "Next exampleTigris
     (exampleIterator Background (Some (Schema 1)) (Some \<lparr>pending = [''a'', ''b''], failure = None\<rparr>))
     = (Return (unused, Some [(''_id'', String ''a'')], None),
        exampleIterator Background (Some (Schema 2)) (Some \<lparr>pending = [''b''], failure = None\<rparr>),
        [DriverNext, UnmarshalCall ''a'' (Some (Schema 1)), RefreshCall ''db'' ''coll'',
         UnmarshalCall ''a'' (Some (Schema 2))])"
    using Next_schema_retry_once [of
        "exampleIterator Background (Some (Schema 1)) (Some \<lparr>pending = [''a'', ''b''], failure = None\<rparr>)"
        "\<lparr>pending = [''a'', ''b''], failure = None\<rparr>" "''a''" "[''b'']" exampleTigris
        NullType "ErrorString ''schema mismatch''" "Some (Schema 2)" None]
    by (simp add: exampleIterator_def exampleTigris_def exampleDB_def)
  with h show ?thesis by blast
qed

subsection \<open>Close\<close>

lemma Next_budget:
  assumes "Next X it = (r, it', evs)"
  shows "count_list evs DriverClose + (if iter it' = None then 0 else 1)
           \<le> (if iter it = None then 0 else 1)"
  using assms
  by (auto simp: Next_def close_def driver_Next_def Let_def
      split: option.splits prod.splits if_splits list.splits)

lemma Close_budget:
  assumes "Close it = (it', evs)"
  shows "count_list evs DriverClose + (if iter it' = None then 0 else 1)
           \<le> (if iter it = None then 0 else 1)"
  using assms
  by (auto simp: Close_def close_def split: option.splits)

lemma run_budget:
  "count_list (snd (run X cs it)) DriverClose + (if iter (fst (run X cs it)) = None then 0 else 1)
     \<le> (if iter it = None then 0 else 1)"
proof (induction cs arbitrary: it)
  case Nil
  then show ?case by simp
next
  case (Cons c cs)
  show ?case
  proof (cases c)
    case CallNext
    obtain r it' evs where n: "Next X it = (r, it', evs)" by (cases "Next X it") auto
    obtain it'' evs' where rr: "run X cs it' = (it'', evs')" by (cases "run X cs it'") auto
    from Cons.IH [of it'] rr Next_budget [OF n] CallNext n show ?thesis
      by (simp split: if_splits)
  next
    case CallClose
    obtain it' evs where n: "Close it = (it', evs)" by (cases "Close it") auto
    obtain it'' evs' where rr: "run X cs it' = (it'', evs')" by (cases "run X cs it'") auto
    from Cons.IH [of it'] rr Close_budget [OF n] CallClose n show ?thesis
      by (simp split: if_splits)
  next
    case (ContextBecomes x)
    with Cons.IH [of "it\<lparr>ctx := x\<rparr>"] show ?thesis by simp
  qed
qed

text \<open>
  C9: over any sequence of \<open>Next\<close> and \<open>Close\<close> calls and changes of the context, from
  any state of the iterator, the cursor's \<open>Close\<close> is called at most once, the closes that
  \<open>Next\<close> does at the end of the cursor included. A \<open>Close\<close> after a \<open>Close\<close> leaves the
  iterator as it is and does not touch the cursor (it repeats the removal from the profile
  and the clearing of the finalizer only), and a \<open>Next\<close> after a \<open>Close\<close> returns
  \<open>ErrIteratorDone\<close>.
\<close>

theorem Close_idempotent_release_once:
  "count_list (snd (run X cs it)) DriverClose \<le> 1 \<and>
   Close (fst (Close it)) = (fst (Close it), [ProfileRemove, SetFinalizer False]) \<and>
   Next X (fst (Close it)) = (Return (unused, None, Some ErrIteratorDone), fst (Close it), [])"
proof -
  have "count_list (snd (run X cs it)) DriverClose \<le> 1"
    using run_budget [of X cs it] by (simp split: if_splits)
  moreover have "Close (fst (Close it)) = (fst (Close it), [ProfileRemove, SetFinalizer False])"
    by (simp add: Close_def close_def split: option.splits)
  moreover have "Next X (fst (Close it))
                   = (Return (unused, None, Some ErrIteratorDone), fst (Close it), [])"
    by (rule Next_closed) (simp add: Close_def close_iter)
  ultimately show ?thesis by blast
qed

theorem Close_idempotent_release_once_witness:
  "count_list
     (snd (run exampleTigris [CallNext, CallClose, CallClose, ContextBecomes Cancelled, CallNext]
        (exampleIterator Background (Some (Schema 2))
           (Some \<lparr>pending = [''a'', ''b''], failure = None\<rparr>))))
     DriverClose \<le> 1 \<and>
   snd (run exampleTigris [CallNext, CallClose, CallClose, ContextBecomes Cancelled, CallNext]
        (exampleIterator Background (Some (Schema 2))
           (Some \<lparr>pending = [''a'', ''b''], failure = None\<rparr>)))
     = [DriverNext, UnmarshalCall ''a'' (Some (Schema 2)),
        ProfileRemove, SetFinalizer False, DriverClose,
        ProfileRemove, SetFinalizer False]"
proof -
  have "snd (run exampleTigris [CallNext, CallClose, CallClose, ContextBecomes Cancelled, CallNext]
        (exampleIterator Background (Some (Schema 2))
           (Some \<lparr>pending = [''a'', ''b''], failure = None\<rparr>)))
     = [DriverNext, UnmarshalCall ''a'' (Some (Schema 2)),
        ProfileRemove, SetFinalizer False, DriverClose,
        ProfileRemove, SetFinalizer False]"
    by (simp add: Next_def Close_def close_def exampleIterator_def exampleTigris_def
        driver_Next_def returnDocument_def)
  with Close_idempotent_release_once [of exampleTigris
        "[CallNext, CallClose, CallClose, ContextBecomes Cancelled, CallNext]"
        "exampleIterator Background (Some (Schema 2))
           (Some \<lparr>pending = [''a'', ''b''], failure = None\<rparr>)"]
  show ?thesis by blast
qed

end
